theory Spec2Isabelle
  imports Main "HOL-Library.Sublist"
begin

section \<open>The Vite logger shim (createViteLogger)\<close>

text \<open>
  JavaScript strings are modelled as HOL strings, their code units as characters. The
  operations the logger uses on them (\<^verbatim>\<open>startsWith\<close>, \<^verbatim>\<open>includes\<close>, \<^verbatim>\<open>===\<close>, \<^verbatim>\<open>+\<close>) are
  those of sequences: \<^const>\<open>prefix\<close>, \<^const>\<open>sublist\<close>, equality and append. The counter
  \<^verbatim>\<open>duplicateCount\<close> is a natural number (a JavaScript number counts exactly up to \<open>2^53\<close>).
\<close>

subsection \<open>Types of the bundler's logger interface\<close>

text \<open>\<^verbatim>\<open>vite.LogType = 'error' | 'warn' | 'info'\<close>, and
  \<^verbatim>\<open>vite.LogLevel = LogType | 'silent'\<close>.\<close>

datatype LogType = Info | Warn | Error

datatype LogLevel = LevelSilent | LevelError | LevelWarn | LevelInfo

text \<open>The table \<^verbatim>\<open>logLevelMapReverse\<close>.\<close>

fun logLevelMapReverse :: "LogLevel \<Rightarrow> nat" where
  "logLevelMapReverse LevelSilent = 0"
| "logLevelMapReverse LevelError = 1"
| "logLevelMapReverse LevelWarn = 2"
| "logLevelMapReverse LevelInfo = 3"

text \<open>
  The fields of \<^verbatim>\<open>vite.InlineConfig\<close> that the logger reads: \<^verbatim>\<open>logLevel\<close> (optional),
  \<^verbatim>\<open>clearScreen\<close> (its truth value), \<^verbatim>\<open>root\<close> and \<^verbatim>\<open>build.outDir\<close> (optional).
\<close>

record InlineConfig =
  logLevel :: "LogLevel option"
  clearScreen :: bool
  root :: string
  outDir :: "string option"

text \<open>The second argument \<^verbatim>\<open>ctx: { hideOutput?: boolean }\<close>.\<close>

record Ctx =
  hideOutput :: bool

text \<open>
  \<^verbatim>\<open>vite.LogErrorOptions\<close>: the truth value of \<^verbatim>\<open>clear\<close> and the optional error object.
  Error objects are compared by identity (they are kept in a \<^verbatim>\<open>WeakSet\<close>), so they are
  values of an arbitrary type \<open>'e\<close>.
\<close>

record 'e LogErrorOptions =
  clear :: bool
  error :: "'e option"

text \<open>The default \<^verbatim>\<open>options = {}\<close>.\<close>

definition no_options :: "'e LogErrorOptions" where
  "no_options = \<lparr>clear = False, error = None\<rparr>"

subsection \<open>What the logger takes from outside\<close>

text \<open>
  The process environment and the imported helpers the logger calls are parameters:
  the truth value of \<^verbatim>\<open>process.env.DEBUG\<close>, \<^verbatim>\<open>hasTTY\<close> and \<^verbatim>\<open>isCI\<close> of std-env,
  \<^verbatim>\<open>relative\<close> of pathe, \<^verbatim>\<open>colorize\<close> of consola, and the truth value of what
  \<^verbatim>\<open>resolveFromPublicAssets\<close> (of \<^verbatim>\<open>useResolveFromPublicAssets\<close>) returns.
\<close>

record Env =
  DEBUG :: bool
  hasTTY :: bool
  isCI :: bool
  relative :: "string \<Rightarrow> string \<Rightarrow> string"
  colorize :: "string \<Rightarrow> string \<Rightarrow> string"
  resolveFromPublicAssets :: "string \<Rightarrow> bool"

subsection \<open>State\<close>

text \<open>
  What the two external loggers are asked to do is recorded as a list of events:
  \<open>Cleared\<close> is a call \<^verbatim>\<open>_logger.clearScreen('silent')\<close> of Vite's own logger,
  \<open>Print l t s\<close> is a call \<^verbatim>\<open>logger[t](s)\<close> of the kit's logger made while
  \<^verbatim>\<open>logger.level\<close> is \<open>l\<close>.
\<close>

datatype event = Cleared | Print nat LogType string

text \<open>
  The state shared by all loggers of the module: the module-level variables
  \<^verbatim>\<open>duplicateCount\<close>, \<^verbatim>\<open>lastType\<close>, \<^verbatim>\<open>lastMsg\<close>, the field \<^verbatim>\<open>logger.level\<close> of the kit's
  logger, and the events so far.
\<close>

record Shared =
  duplicateCount :: nat
  lastType :: "LogType option"
  lastMsg :: "string option"
  level :: nat
  events :: "event list"

text \<open>
  The state of one logger returned by \<^verbatim>\<open>createViteLogger\<close>: the property \<^verbatim>\<open>hasWarned\<close> and
  the two sets of its closure.
\<close>

record 'e ViteLogger =
  hasWarned :: bool
  loggedErrors :: "'e set"
  warnedMessages :: "string set"

subsection \<open>Rendering the repeat count\<close>

definition digit :: "nat \<Rightarrow> char" where
  "digit d = char_of (48 + d)"

function string_of_nat :: "nat \<Rightarrow> string" where
  "string_of_nat n =
     (if n < 10 then [digit n] else string_of_nat (n div 10) @ [digit (n mod 10)])"
  by pat_completeness auto
termination
  by (relation "measure id") auto

declare string_of_nat.simps [simp del]

subsection \<open>The regular expression RUNTIME_RESOLVE_REF_RE\<close>

text \<open>
  \<^verbatim>\<open>/^([^ ]+) referenced in/m\<close>: at the start of the input or after a line terminator, a
  non-empty run of characters other than the space, then the text \<^verbatim>\<open>" referenced in"\<close>.
  The run cannot stop before the first space (the next character must be the space of the
  literal), so at each start there is one candidate: the characters up to the first space.
  \<open>RUNTIME_RESOLVE_REF_RE_match s\<close> is group 1 of the leftmost match, as
  \<^verbatim>\<open>s.match(RUNTIME_RESOLVE_REF_RE)?.[1]\<close> is.
\<close>

definition is_line_terminator :: "char \<Rightarrow> bool" where
  "is_line_terminator c = (c = CHR 0x0A \<or> c = CHR 0x0D)"

definition match_here :: "string \<Rightarrow> string option" where
  "match_here s =
     (let run = takeWhile (\<lambda>c. c \<noteq> CHR '' '') s;
          rest = dropWhile (\<lambda>c. c \<noteq> CHR '' '') s
      in if run \<noteq> [] \<and> prefix '' referenced in'' rest then Some run else None)"

fun match_from :: "bool \<Rightarrow> string \<Rightarrow> string option" where
  "match_from line_start [] = None"
| "match_from line_start (c # cs) =
     (case (if line_start then match_here (c # cs) else None) of
        Some g \<Rightarrow> Some g
      | None \<Rightarrow> match_from (is_line_terminator c) cs)"

definition RUNTIME_RESOLVE_REF_RE_match :: "string \<Rightarrow> string option" where
  "RUNTIME_RESOLVE_REF_RE_match s = match_from True s"

text \<open>\<^verbatim>\<open>String.prototype.trim\<close>, on the white space that fits in a \<^typ>\<open>char\<close>.\<close>

definition is_white_space :: "char \<Rightarrow> bool" where
  "is_white_space c =
     (c = CHR 0x09 \<or> c = CHR 0x0A \<or> c = CHR 0x0B \<or> c = CHR 0x0C \<or> c = CHR 0x0D
      \<or> c = CHR 0x20 \<or> c = CHR 0xA0)"

definition trim :: "string \<Rightarrow> string" where
  "trim s = rev (dropWhile is_white_space (rev (dropWhile is_white_space s)))"

subsection \<open>createViteLogger\<close>

definition canClearScreen :: "Env \<Rightarrow> InlineConfig \<Rightarrow> bool" where
  "canClearScreen E config = (hasTTY E \<and> \<not> isCI E \<and> clearScreen config)"

definition relativeOutDir :: "Env \<Rightarrow> InlineConfig \<Rightarrow> string" where
  "relativeOutDir E config =
     relative E (root config) (case outDir config of None \<Rightarrow> [] | Some d \<Rightarrow> d)"

text \<open>\<^verbatim>\<open>clear\<close> and \<^verbatim>\<open>clearScreen = canClearScreen ? clear : () => {}\<close>.\<close>

definition clear_fn :: "Shared \<Rightarrow> Shared" where
  "clear_fn S = S\<lparr>events := events S @ [Cleared]\<rparr>"

definition clearScreen_fn :: "Env \<Rightarrow> InlineConfig \<Rightarrow> Shared \<Rightarrow> Shared" where
  "clearScreen_fn E config S = (if canClearScreen E config then clear_fn S else S)"

text \<open>The call \<^verbatim>\<open>logger[type](text)\<close> of the kit's logger.\<close>

definition logger_call :: "LogType \<Rightarrow> string \<Rightarrow> Shared \<Rightarrow> Shared" where
  "logger_call type text S = S\<lparr>events := events S @ [Print (level S) type text]\<rparr>"

text \<open>
  The three early returns at the head of \<^verbatim>\<open>output\<close> (\<^verbatim>\<open>typeof msg === 'string'\<close> holds for
  every message of the model).
\<close>

definition unresolved_phrase :: string where
  "unresolved_phrase =
     ''didn't resolve at build time, it will remain unchanged to be resolved at runtime''"

definition filtered :: "Env \<Rightarrow> InlineConfig \<Rightarrow> Ctx \<Rightarrow> LogType \<Rightarrow> string \<Rightarrow> bool" where
  "filtered E config ctx type msg =
     (if \<not> DEBUG E then
        if prefix ''Sourcemap'' msg \<and> sublist ''node_modules'' msg then True
        else if sublist unresolved_phrase msg
              \<and> (case RUNTIME_RESOLVE_REF_RE_match (trim msg) of
                    None \<Rightarrow> False
                  | Some ident \<Rightarrow> ident \<noteq> [] \<and> resolveFromPublicAssets E ident) then True
        else type = Info \<and> hideOutput ctx \<and> sublist (relativeOutDir E config) msg
      else False)"

definition repeat_suffix :: "Env \<Rightarrow> nat \<Rightarrow> string" where
  "repeat_suffix E n = colorize E ''dim'' ('' (x'' @ string_of_nat (n + 1) @ '')'')"

definition output_fn ::
  "Env \<Rightarrow> InlineConfig \<Rightarrow> Ctx \<Rightarrow> LogType \<Rightarrow> string \<Rightarrow> 'e LogErrorOptions
     \<Rightarrow> 'e ViteLogger \<times> Shared \<Rightarrow> 'e ViteLogger \<times> Shared" where
  "output_fn E config ctx type msg options st =
     (case st of (L, S) \<Rightarrow>
        if filtered E config ctx type msg then (L, S)
        else
          let sameAsLast = (lastType S = Some type \<and> lastMsg S = Some msg);
              S1 = (if sameAsLast
                    then clearScreen_fn E config (S\<lparr>duplicateCount := duplicateCount S + 1\<rparr>)
                    else
                      let S0 = S\<lparr>duplicateCount := 0, lastType := Some type,
                                 lastMsg := Some msg\<rparr>
                      in if clear options then clearScreen_fn E config S0 else S0);
              L1 = (case error options of
                      None \<Rightarrow> L
                    | Some e \<Rightarrow> L\<lparr>loggedErrors := insert e (loggedErrors L)\<rparr>);
              prevLevel = level S1;
              S2 = S1\<lparr>level := logLevelMapReverse
                                  (case logLevel config of None \<Rightarrow> LevelInfo | Some l \<Rightarrow> l)\<rparr>;
              S3 = logger_call type
                     (msg @ (if sameAsLast then repeat_suffix E (duplicateCount S2) else []))
                     S2
          in (L1, S3\<lparr>level := prevLevel\<rparr>))"

text \<open>
  The object \<^verbatim>\<open>viteLogger\<close> as \<^verbatim>\<open>createViteLogger\<close> returns it. The constants of its
  closure, \<^verbatim>\<open>canClearScreen\<close> and \<^verbatim>\<open>relativeOutDir\<close>, are the functions above of the
  environment and the configuration, which every method takes as arguments.
\<close>

definition createViteLogger :: "Env \<Rightarrow> InlineConfig \<Rightarrow> Ctx \<Rightarrow> 'e ViteLogger" where
  "createViteLogger E config ctx =
     \<lparr>hasWarned = False, loggedErrors = {}, warnedMessages = {}\<rparr>"

definition info ::
  "Env \<Rightarrow> InlineConfig \<Rightarrow> Ctx \<Rightarrow> string \<Rightarrow> 'e LogErrorOptions
     \<Rightarrow> 'e ViteLogger \<times> Shared \<Rightarrow> 'e ViteLogger \<times> Shared" where
  "info E config ctx msg opts st = output_fn E config ctx Info msg opts st"

definition warn ::
  "Env \<Rightarrow> InlineConfig \<Rightarrow> Ctx \<Rightarrow> string \<Rightarrow> 'e LogErrorOptions
     \<Rightarrow> 'e ViteLogger \<times> Shared \<Rightarrow> 'e ViteLogger \<times> Shared" where
  "warn E config ctx msg opts st =
     (case st of (L, S) \<Rightarrow> output_fn E config ctx Warn msg opts (L\<lparr>hasWarned := True\<rparr>, S))"

definition warnOnce ::
  "Env \<Rightarrow> InlineConfig \<Rightarrow> Ctx \<Rightarrow> string \<Rightarrow> 'e LogErrorOptions
     \<Rightarrow> 'e ViteLogger \<times> Shared \<Rightarrow> 'e ViteLogger \<times> Shared" where
  "warnOnce E config ctx msg opts st =
     (case st of (L, S) \<Rightarrow>
        if msg \<in> warnedMessages L then (L, S)
        else
          (case output_fn E config ctx Warn msg opts (L\<lparr>hasWarned := True\<rparr>, S) of
             (L1, S1) \<Rightarrow> (L1\<lparr>warnedMessages := insert msg (warnedMessages L1)\<rparr>, S1)))"

definition error_fn ::
  "Env \<Rightarrow> InlineConfig \<Rightarrow> Ctx \<Rightarrow> string \<Rightarrow> 'e LogErrorOptions
     \<Rightarrow> 'e ViteLogger \<times> Shared \<Rightarrow> 'e ViteLogger \<times> Shared" where
  "error_fn E config ctx msg opts st =
     (case st of (L, S) \<Rightarrow> output_fn E config ctx Error msg opts (L\<lparr>hasWarned := True\<rparr>, S))"

definition clearScreen_method :: "'e ViteLogger \<times> Shared \<Rightarrow> 'e ViteLogger \<times> Shared" where
  "clearScreen_method st = (case st of (L, S) \<Rightarrow> (L, clear_fn S))"

definition hasErrorLogged :: "'e \<Rightarrow> 'e ViteLogger \<Rightarrow> bool" where
  "hasErrorLogged e L = (e \<in> loggedErrors L)"

subsection \<open>Sequences of calls\<close>

text \<open>The calls a client can make on one logger that change state, and their effect.\<close>

datatype 'e call =
    CallInfo string "'e LogErrorOptions"
  | CallWarn string "'e LogErrorOptions"
  | CallWarnOnce string "'e LogErrorOptions"
  | CallError string "'e LogErrorOptions"
  | CallClearScreen

fun step ::
  "Env \<Rightarrow> InlineConfig \<Rightarrow> Ctx \<Rightarrow> 'e call \<Rightarrow> 'e ViteLogger \<times> Shared \<Rightarrow> 'e ViteLogger \<times> Shared"
  where
  "step E config ctx (CallInfo msg opts) st = info E config ctx msg opts st"
| "step E config ctx (CallWarn msg opts) st = warn E config ctx msg opts st"
| "step E config ctx (CallWarnOnce msg opts) st = warnOnce E config ctx msg opts st"
| "step E config ctx (CallError msg opts) st = error_fn E config ctx msg opts st"
| "step E config ctx CallClearScreen st = clearScreen_method st"

fun run ::
  "Env \<Rightarrow> InlineConfig \<Rightarrow> Ctx \<Rightarrow> 'e call list \<Rightarrow> 'e ViteLogger \<times> Shared \<Rightarrow> 'e ViteLogger \<times> Shared"
  where
  "run E config ctx [] st = st"
| "run E config ctx (c # cs) st = run E config ctx cs (step E config ctx c st)"

text \<open>The error object a call carries, if any.\<close>

fun call_error :: "'e call \<Rightarrow> 'e option" where
  "call_error (CallInfo msg opts) = error opts"
| "call_error (CallWarn msg opts) = error opts"
| "call_error (CallWarnOnce msg opts) = error opts"
| "call_error (CallError msg opts) = error opts"
| "call_error CallClearScreen = None"

text \<open>The message of a call when the call is a \<^verbatim>\<open>warnOnce\<close>.\<close>

fun warnOnce_msg :: "'e call \<Rightarrow> string option" where
  "warnOnce_msg (CallWarnOnce msg opts) = Some msg"
| "warnOnce_msg c = None"

text \<open>The events a call adds: those after the ones that were there before it.\<close>

definition emitted ::
  "Env \<Rightarrow> InlineConfig \<Rightarrow> Ctx \<Rightarrow> 'e call \<Rightarrow> 'e ViteLogger \<times> Shared \<Rightarrow> event list" where
  "emitted E config ctx c st =
     drop (length (events (snd st))) (events (snd (step E config ctx c st)))"

text \<open>The level the kit's logger is given while a line is printed.\<close>

definition print_level :: "InlineConfig \<Rightarrow> nat" where
  "print_level config =
     logLevelMapReverse (case logLevel config of None \<Rightarrow> LevelInfo | Some l \<Rightarrow> l)"

section \<open>The module-id classifier (isVue, isJS, getLoader)\<close>

subsection \<open>The library functions\<close>

text \<open>
  The classifier calls \<^verbatim>\<open>pathToFileURL\<close> of Node, the built-in \<^verbatim>\<open>decodeURIComponent\<close>,
  \<^verbatim>\<open>parseURL\<close> and \<^verbatim>\<open>parseQuery\<close> of ufo and \<^verbatim>\<open>extname\<close> of pathe. They are parameters.
  The first two can throw (\<^verbatim>\<open>pathToFileURL\<close> throws \<^verbatim>\<open>ERR_INVALID_ARG_VALUE\<close> on Windows for
  a UNC path that lacks a server name or a resource path, \<^verbatim>\<open>decodeURIComponent\<close> throws
  \<^verbatim>\<open>URIError\<close> on a malformed escape sequence), so they return an error or a value; the
  other three return a value for every string.
\<close>

datatype js_error = ERR_INVALID_ARG_VALUE | URIError

text \<open>The two fields of ufo's \<^verbatim>\<open>ParsedURL\<close> that are read.\<close>

record ParsedURL =
  pathname :: string
  search :: string

text \<open>
  ufo's \<^verbatim>\<open>ParsedQuery\<close> maps a key to a string or to an array of strings; a key the object does
  not have is \<open>None\<close>.
\<close>

datatype QueryValue = Str string | Arr "string list"

type_synonym ParsedQuery = "string \<Rightarrow> QueryValue option"

record Libs =
  pathToFileURL_href :: "string \<Rightarrow> js_error + string"
  decodeURIComponent :: "string \<Rightarrow> js_error + string"
  parseURL :: "string \<Rightarrow> ParsedURL"
  parseQuery :: "string \<Rightarrow> ParsedQuery"
  extname :: "string \<Rightarrow> string"

text \<open>The second argument \<^verbatim>\<open>opts: { type?: Array<'template' | 'script' | 'style'> }\<close>.\<close>

record VueOpts =
  type_opt :: "string list option"

subsection \<open>JavaScript's truth values and Array.prototype.includes\<close>

text \<open>A property read is falsy when the key is missing or its value is the empty string.\<close>

fun truthy :: "QueryValue option \<Rightarrow> bool" where
  "truthy None = False"
| "truthy (Some (Str s)) = (s \<noteq> [])"
| "truthy (Some (Arr xs)) = True"

text \<open>An array of strings includes a value only when the value is a string equal to an element.\<close>

fun includes_fn :: "string list \<Rightarrow> QueryValue option \<Rightarrow> bool" where
  "includes_fn ts (Some (Str s)) = (s \<in> set ts)"
| "includes_fn ts v = False"

subsection \<open>The classifier\<close>

text \<open>
  The expression \<^verbatim>\<open>parseURL(decodeURIComponent(pathToFileURL(id).href))\<close> of all three
  functions. An exception of a library call propagates: the functions have no handler.
\<close>

definition parse_id :: "Libs \<Rightarrow> string \<Rightarrow> js_error + ParsedURL" where
  "parse_id libs ident =
     (case pathToFileURL_href libs ident of
        Inl e \<Rightarrow> Inl e
      | Inr href \<Rightarrow>
          (case decodeURIComponent libs href of
             Inl e \<Rightarrow> Inl e
           | Inr url \<Rightarrow> Inr (parseURL libs url)))"

definition isVue :: "Libs \<Rightarrow> string \<Rightarrow> VueOpts \<Rightarrow> js_error + bool" where
  "isVue libs ident opts =
     (case parse_id libs ident of
        Inl e \<Rightarrow> Inl e
      | Inr parsed \<Rightarrow>
          Inr (if suffix ''.vue'' ident \<and> search parsed = [] then True
               else if search parsed = [] then False
               else
                 let query = parseQuery libs (search parsed) in
                 if truthy (query ''nuxt_component'') then False
                 else if truthy (query ''macro'')
                         \<and> (search parsed = ''?macro=true''
                             \<or> (case type_opt opts of
                                   None \<Rightarrow> True
                                 | Some ts \<Rightarrow> includes_fn ts (Some (Str ''script'')))) then True
                 else
                   let type = (if query ''setup'' \<noteq> None then Some (Str ''script'')
                               else query ''type'') in
                   if query ''vue'' = None
                      \<or> (case type_opt opts of None \<Rightarrow> False | Some ts \<Rightarrow> \<not> includes_fn ts type)
                   then False
                   else True))"

text \<open>
  \<^verbatim>\<open>JS_RE = /\.(?:[cm]?j|t)sx?$/\<close> matches a string exactly when the string ends with a dot,
  then \<^verbatim>\<open>j\<close>, \<^verbatim>\<open>cj\<close>, \<^verbatim>\<open>mj\<close> or \<^verbatim>\<open>t\<close>, then \<^verbatim>\<open>s\<close> and an optional \<^verbatim>\<open>x\<close>.
\<close>

definition JS_RE_test :: "string \<Rightarrow> bool" where
  "JS_RE_test s =
     (suffix ''.js'' s \<or> suffix ''.cjs'' s \<or> suffix ''.mjs'' s \<or> suffix ''.ts'' s
      \<or> suffix ''.jsx'' s \<or> suffix ''.cjsx'' s \<or> suffix ''.mjsx'' s \<or> suffix ''.tsx'' s)"

definition isJS :: "Libs \<Rightarrow> string \<Rightarrow> js_error + bool" where
  "isJS libs ident =
     (case parse_id libs ident of
        Inl e \<Rightarrow> Inl e
      | Inr parsed \<Rightarrow> Inr (JS_RE_test (pathname parsed)))"

text \<open>The result \<^verbatim>\<open>'vue' | 'ts' | 'tsx' | null\<close> is a string or \<open>None\<close>.\<close>

definition getLoader :: "Libs \<Rightarrow> string \<Rightarrow> js_error + string option" where
  "getLoader libs ident =
     (case parse_id libs ident of
        Inl e \<Rightarrow> Inl e
      | Inr parsed \<Rightarrow>
          let ext = extname libs (pathname parsed) in
          Inr (if ext = ''.vue'' then Some ''vue''
               else if \<not> JS_RE_test ext then None
               else if suffix ''x'' ext then Some ''tsx'' else Some ''ts''))"

section \<open>Sample inputs\<close>

subsection \<open>A sample environment\<close>

text \<open>
  Concrete values on which the definitions can be run: a terminal outside CI with no
  \<^verbatim>\<open>DEBUG\<close> variable, colours switched off (so \<^verbatim>\<open>colorize\<close> returns its text), a project
  at \<^verbatim>\<open>/app\<close> built into \<^verbatim>\<open>/app/.output/public\<close>, and one public asset \<^verbatim>\<open>/logo.png\<close>.
  Error objects are numbered.
\<close>

definition sample_relative :: "string \<Rightarrow> string \<Rightarrow> string" where
  "sample_relative from to =
     (if prefix (from @ ''/'') to then drop (length from + 1) to else to)"

definition sample_colorize :: "string \<Rightarrow> string \<Rightarrow> string" where
  "sample_colorize color text = text"

definition sample_public :: "string \<Rightarrow> bool" where
  "sample_public ident = (ident = ''/logo.png'')"

definition sample_env :: Env where
  "sample_env =
     \<lparr>DEBUG = False, hasTTY = True, isCI = False, relative = sample_relative,
      colorize = sample_colorize, resolveFromPublicAssets = sample_public\<rparr>"

definition debug_env :: Env where
  "debug_env = sample_env\<lparr>DEBUG := True\<rparr>"

definition sample_config :: InlineConfig where
  "sample_config =
     \<lparr>logLevel = Some LevelWarn, clearScreen = True, root = ''/app'',
      outDir = Some ''/app/.output/public''\<rparr>"

definition sample_ctx :: Ctx where
  "sample_ctx = \<lparr>hideOutput = True\<rparr>"

text \<open>The module-level variables as initialised, and the kit's logger at level 3.\<close>

definition initial_shared :: Shared where
  "initial_shared =
     \<lparr>duplicateCount = 0, lastType = None, lastMsg = None, level = 3, events = []\<rparr>"

definition fresh :: "nat ViteLogger \<times> Shared" where
  "fresh = (createViteLogger sample_env sample_config sample_ctx, initial_shared)"

definition sourcemap_msg :: string where
  "sourcemap_msg = ''Sourcemap for /app/node_modules/x.js points to missing source files''"

definition unresolved_msg :: string where
  "unresolved_msg =
     CHR 0x0A # ''/logo.png referenced in /app/assets/main.css '' @ unresolved_phrase"

definition outdir_msg :: string where
  "outdir_msg = ''.output/public/index.html  1.20 kB''"

definition build_failed :: "nat call" where
  "build_failed = CallError ''build failed'' \<lparr>clear = False, error = Some 7\<rparr>"

definition sourcemap_error :: "nat call" where
  "sourcemap_error = CallError sourcemap_msg \<lparr>clear = False, error = Some 7\<rparr>"

subsection \<open>Sample libraries\<close>

text \<open>
  What the library functions compute on an absolute, normalised POSIX path made of letters,
  digits and the characters \<^verbatim>\<open>/ . - _\<close>, optionally followed by a query made of these and of
  \<^verbatim>\<open>? & =\<close>. \<^verbatim>\<open>pathToFileURL\<close> escapes \<^verbatim>\<open>% ? #\<close> and the space, and
  \<^verbatim>\<open>decodeURIComponent\<close> undoes these escapes.
\<close>

definition encode_char :: "char \<Rightarrow> string" where
  "encode_char c =
     (if c = CHR ''%'' then ''%25'' else if c = CHR ''?'' then ''%3F''
      else if c = CHR ''#'' then ''%23'' else if c = CHR '' '' then ''%20'' else [c])"

definition sample_pathToFileURL_href :: "string \<Rightarrow> js_error + string" where
  "sample_pathToFileURL_href p = Inr (''file://'' @ concat (map encode_char p))"

fun sample_decode :: "string \<Rightarrow> string" where
  "sample_decode (a # b # c # cs) =
     (if [a, b, c] = ''%25'' then CHR ''%'' # sample_decode cs
      else if [a, b, c] = ''%3F'' then CHR ''?'' # sample_decode cs
      else if [a, b, c] = ''%23'' then CHR ''#'' # sample_decode cs
      else if [a, b, c] = ''%20'' then CHR '' '' # sample_decode cs
      else a # sample_decode (b # c # cs))"
| "sample_decode cs = cs"

definition sample_decodeURIComponent :: "string \<Rightarrow> js_error + string" where
  "sample_decodeURIComponent s = Inr (sample_decode s)"

text \<open>ufo's \<^verbatim>\<open>parsePath\<close>: the path up to the first \<^verbatim>\<open>?\<close> or \<^verbatim>\<open>#\<close>, then the query up to \<^verbatim>\<open>#\<close>.\<close>

definition sample_parsePath :: "string \<Rightarrow> ParsedURL" where
  "sample_parsePath p =
     (let rest = dropWhile (\<lambda>c. c \<noteq> CHR ''?'' \<and> c \<noteq> CHR ''#'') p
      in \<lparr>pathname = takeWhile (\<lambda>c. c \<noteq> CHR ''?'' \<and> c \<noteq> CHR ''#'') p,
          search = (if prefix ''?'' rest then takeWhile (\<lambda>c. c \<noteq> CHR ''#'') rest else [])\<rparr>)"

text \<open>ufo's \<^verbatim>\<open>parseURL\<close> on a \<^verbatim>\<open>file://\<close> URL: the host is what precedes the first
  \<^verbatim>\<open>/\<close>, \<^verbatim>\<open>?\<close> or \<^verbatim>\<open>#\<close>.\<close>

definition sample_parseURL :: "string \<Rightarrow> ParsedURL" where
  "sample_parseURL url =
     sample_parsePath
       (if prefix ''file://'' url
        then dropWhile (\<lambda>c. c \<noteq> CHR ''/'' \<and> c \<noteq> CHR ''?'' \<and> c \<noteq> CHR ''#'') (drop 7 url)
        else url)"

text \<open>Splitting a string at a separator, as \<^verbatim>\<open>String.prototype.split\<close> does.\<close>

fun split_on :: "char \<Rightarrow> string \<Rightarrow> string list" where
  "split_on sep [] = [[]]"
| "split_on sep (c # cs) =
     (if c = sep then [] # split_on sep cs
      else (case split_on sep cs of
              [] \<Rightarrow> [[c]]
            | w # ws \<Rightarrow> (c # w) # ws))"

text \<open>
  ufo's \<^verbatim>\<open>parseQuery\<close>: each parameter between \<^verbatim>\<open>&\<close> gives a key (its first run of characters
  other than \<^verbatim>\<open>=\<close>) and a value (what follows the \<^verbatim>\<open>=\<close> after the key); a repeated key
  collects its values in an array.
\<close>

definition add_parameter :: "ParsedQuery \<Rightarrow> string \<Rightarrow> ParsedQuery" where
  "add_parameter query parameter =
     (let p = dropWhile (\<lambda>c. c = CHR ''='') parameter;
          k = takeWhile (\<lambda>c. c \<noteq> CHR ''='') p;
          v = drop 1 (dropWhile (\<lambda>c. c \<noteq> CHR ''='') p)
      in if k = [] \<or> k = ''__proto__'' \<or> k = ''constructor'' then query
         else (case query k of
                 None \<Rightarrow> query(k \<mapsto> Str v)
               | Some (Str a) \<Rightarrow> query(k \<mapsto> Arr [a, v])
               | Some (Arr as) \<Rightarrow> query(k \<mapsto> Arr (as @ [v]))))"

definition sample_parseQuery :: "string \<Rightarrow> ParsedQuery" where
  "sample_parseQuery s =
     foldl add_parameter Map.empty (split_on CHR ''&'' (if prefix ''?'' s then drop 1 s else s))"

text \<open>
  pathe's \<^verbatim>\<open>extname\<close>, the group of \<^verbatim>\<open>/.(\.[^./]+|\.)$/\<close>: the last dot and what follows it,
  when what follows has no dot and no slash and a character precedes the dot.
\<close>

definition sample_extname :: "string \<Rightarrow> string" where
  "sample_extname p =
     (let r = rev p;
          tail = takeWhile (\<lambda>c. c \<noteq> CHR ''.'' \<and> c \<noteq> CHR ''/'') r;
          front = dropWhile (\<lambda>c. c \<noteq> CHR ''.'' \<and> c \<noteq> CHR ''/'') r
      in if p \<noteq> ''..'' \<and> prefix ''.'' front \<and> 2 \<le> length front
         then CHR ''.'' # rev tail else [])"

definition sample_libs :: Libs where
  "sample_libs =
     \<lparr>pathToFileURL_href = sample_pathToFileURL_href,
      decodeURIComponent = sample_decodeURIComponent,
      parseURL = sample_parseURL,
      parseQuery = sample_parseQuery,
      extname = sample_extname\<rparr>"

text \<open>
  A library whose \<^verbatim>\<open>pathToFileURL\<close> rejects a UNC path that names a server and no resource,
  such as \<^verbatim>\<open>\\server\<close>, as Node's does on Windows. Only this case of it is used.
\<close>

definition backslash :: char where
  "backslash = CHR 0x5C"

definition unc_pathToFileURL_href :: "string \<Rightarrow> js_error + string" where
  "unc_pathToFileURL_href p =
     (if prefix [backslash, backslash] p \<and> backslash \<notin> set (drop 2 p)
      then Inl ERR_INVALID_ARG_VALUE
      else sample_pathToFileURL_href p)"

definition unc_libs :: Libs where
  "unc_libs = sample_libs\<lparr>pathToFileURL_href := unc_pathToFileURL_href\<rparr>"

definition unc_path :: string where
  "unc_path = [backslash, backslash] @ ''server''"

definition no_opts :: VueOpts where
  "no_opts = \<lparr>type_opt = None\<rparr>"

section \<open>Properties of the logger\<close>

subsection \<open>What a call does to each part of the state\<close>

lemma output_fn_filtered:
  "filtered E config ctx type msg \<Longrightarrow> output_fn E config ctx type msg options st = st"
  by (simp add: output_fn_def split: prod.splits)

lemma output_fn_events:
  "\<not> filtered E config ctx type msg \<Longrightarrow>
   events (snd (output_fn E config ctx type msg options (L, S))) =
     events S
     @ (if canClearScreen E config
           \<and> ((lastType S = Some type \<and> lastMsg S = Some msg) \<or> clear options)
        then [Cleared] else [])
     @ [Print (print_level config) type
          (msg @ (if lastType S = Some type \<and> lastMsg S = Some msg
                  then repeat_suffix E (duplicateCount S + 1) else []))]"
  by (simp add: output_fn_def Let_def clearScreen_fn_def clear_fn_def logger_call_def print_level_def)

lemma output_fn_level:
  "level (snd (output_fn E config ctx type msg options (L, S))) = level S"
  by (simp add: output_fn_def Let_def clearScreen_fn_def clear_fn_def logger_call_def)

lemma output_fn_last:
  "\<not> filtered E config ctx type msg \<Longrightarrow>
   lastType (snd (output_fn E config ctx type msg options (L, S))) = Some type
   \<and> lastMsg (snd (output_fn E config ctx type msg options (L, S))) = Some msg"
  by (simp add: output_fn_def Let_def clearScreen_fn_def clear_fn_def logger_call_def)

lemma output_fn_duplicateCount:
  "\<not> filtered E config ctx type msg \<Longrightarrow>
   duplicateCount (snd (output_fn E config ctx type msg options (L, S))) =
     (if lastType S = Some type \<and> lastMsg S = Some msg then duplicateCount S + 1 else 0)"
  by (simp add: output_fn_def Let_def clearScreen_fn_def clear_fn_def logger_call_def)

lemma output_fn_hasWarned:
  "hasWarned (fst (output_fn E config ctx type msg options (L, S))) = hasWarned L"
  by (simp add: output_fn_def Let_def split: option.splits)

lemma output_fn_warnedMessages:
  "warnedMessages (fst (output_fn E config ctx type msg options (L, S))) = warnedMessages L"
  by (simp add: output_fn_def Let_def split: option.splits)

lemma output_fn_loggedErrors:
  "loggedErrors (fst (output_fn E config ctx type msg options (L, S))) =
     (if filtered E config ctx type msg then loggedErrors L
      else case error options of None \<Rightarrow> loggedErrors L | Some e \<Rightarrow> insert e (loggedErrors L))"
  by (simp add: output_fn_def Let_def split: option.splits)

lemma step_level: "level (snd (step E config ctx c st)) = level (snd st)"
  by (cases c; cases st)
     (simp_all add: info_def warn_def warnOnce_def error_fn_def clearScreen_method_def
        clear_fn_def output_fn_level split: prod.splits,
      metis output_fn_level snd_conv)



lemma warnOnce_unfold:
  "warnOnce E config ctx msg opts (L, S) =
     (if msg \<in> warnedMessages L then (L, S)
      else (fst (output_fn E config ctx Warn msg opts (L\<lparr>hasWarned := True\<rparr>, S))
              \<lparr>warnedMessages := insert msg (warnedMessages L)\<rparr>,
            snd (output_fn E config ctx Warn msg opts (L\<lparr>hasWarned := True\<rparr>, S))))"
proof (cases "output_fn E config ctx Warn msg opts (L\<lparr>hasWarned := True\<rparr>, S)")
  case (Pair L1 S1)
  with output_fn_warnedMessages [of E config ctx Warn msg opts "L\<lparr>hasWarned := True\<rparr>" S]
  have "warnedMessages L1 = warnedMessages L" by simp
  with Pair show ?thesis by (simp add: warnOnce_def)
qed

lemma warn_unfold:
  "warn E config ctx msg opts (L, S) =
     output_fn E config ctx Warn msg opts (L\<lparr>hasWarned := True\<rparr>, S)"
  by (simp add: warn_def)

lemma error_fn_unfold:
  "error_fn E config ctx msg opts (L, S) =
     output_fn E config ctx Error msg opts (L\<lparr>hasWarned := True\<rparr>, S)"
  by (simp add: error_fn_def)

lemma warnOnce_seen:
  "msg \<in> warnedMessages (fst st) \<Longrightarrow> warnOnce E config ctx msg opts st = st"
  by (cases st) (simp add: warnOnce_unfold)

lemma warnOnce_records:
  "msg \<in> warnedMessages (fst (warnOnce E config ctx msg opts st))"
  by (cases st) (simp add: warnOnce_unfold)

lemma step_warnedMessages:
  "warnedMessages (fst st) \<subseteq> warnedMessages (fst (step E config ctx c st))"
  by (cases c; cases st)
     (auto simp: info_def warn_unfold warnOnce_unfold error_fn_unfold clearScreen_method_def
        output_fn_warnedMessages)

lemma run_warnedMessages:
  "warnedMessages (fst st) \<subseteq> warnedMessages (fst (run E config ctx cs st))"
proof (induction cs arbitrary: st)
  case Nil
  show ?case by simp
next
  case (Cons c cs)
  have "warnedMessages (fst st) \<subseteq> warnedMessages (fst (step E config ctx c st))"
    by (rule step_warnedMessages)
  also have "\<dots> \<subseteq> warnedMessages (fst (run E config ctx cs (step E config ctx c st)))"
    by (rule Cons.IH)
  finally show ?case by simp
qed

lemma step_loggedErrors_mono:
  "loggedErrors (fst st) \<subseteq> loggedErrors (fst (step E config ctx c st))"
  by (cases c; cases st)
     (auto simp: info_def warn_unfold warnOnce_unfold error_fn_unfold clearScreen_method_def
        output_fn_loggedErrors split: option.splits)

lemma run_loggedErrors_mono:
  "loggedErrors (fst st) \<subseteq> loggedErrors (fst (run E config ctx cs st))"
proof (induction cs arbitrary: st)
  case Nil
  show ?case by simp
next
  case (Cons c cs)
  have "loggedErrors (fst st) \<subseteq> loggedErrors (fst (step E config ctx c st))"
    by (rule step_loggedErrors_mono)
  also have "\<dots> \<subseteq> loggedErrors (fst (run E config ctx cs (step E config ctx c st)))"
    by (rule Cons.IH)
  finally show ?case by simp
qed

lemma step_loggedErrors_upper:
  "e \<in> loggedErrors (fst (step E config ctx c st)) \<Longrightarrow>
   e \<in> loggedErrors (fst st) \<or> call_error c = Some e"
  by (cases c; cases st)
     (auto simp: info_def warn_unfold warnOnce_unfold error_fn_unfold clearScreen_method_def
        output_fn_loggedErrors split: option.splits if_splits)

lemma run_loggedErrors_upper:
  "e \<in> loggedErrors (fst (run E config ctx cs st)) \<Longrightarrow>
   e \<in> loggedErrors (fst st) \<or> (\<exists>c \<in> set cs. call_error c = Some e)"
proof (induction cs arbitrary: st)
  case Nil
  then show ?case by simp
next
  case (Cons c cs)
  from Cons.prems have "e \<in> loggedErrors (fst (run E config ctx cs (step E config ctx c st)))"
    by simp
  then have "e \<in> loggedErrors (fst (step E config ctx c st))
      \<or> (\<exists>c' \<in> set cs. call_error c' = Some e)"
    by (rule Cons.IH)
  then show ?case
    using step_loggedErrors_upper [of e E config ctx c st] by auto
qed

lemma emitted_output:
  "emitted E config ctx c (L, S) =
     (case c of
        CallInfo msg opts \<Rightarrow> drop (length (events S)) (events (snd (output_fn E config ctx Info msg opts (L, S))))
      | CallWarn msg opts \<Rightarrow> drop (length (events S)) (events (snd (output_fn E config ctx Warn msg opts (L\<lparr>hasWarned := True\<rparr>, S))))
      | CallWarnOnce msg opts \<Rightarrow>
          (if msg \<in> warnedMessages L then []
           else drop (length (events S)) (events (snd (output_fn E config ctx Warn msg opts (L\<lparr>hasWarned := True\<rparr>, S)))))
      | CallError msg opts \<Rightarrow> drop (length (events S)) (events (snd (output_fn E config ctx Error msg opts (L\<lparr>hasWarned := True\<rparr>, S))))
      | CallClearScreen \<Rightarrow> [Cleared])"
  by (cases c)
     (simp_all add: emitted_def info_def warn_unfold warnOnce_unfold error_fn_unfold
        clearScreen_method_def clear_fn_def)

lemma drop_output_events:
  "drop (length (events S)) (events (snd (output_fn E config ctx type msg options (L, S)))) =
     (if filtered E config ctx type msg then []
      else (if canClearScreen E config
               \<and> ((lastType S = Some type \<and> lastMsg S = Some msg) \<or> clear options)
            then [Cleared] else [])
           @ [Print (print_level config) type
                (msg @ (if lastType S = Some type \<and> lastMsg S = Some msg
                        then repeat_suffix E (duplicateCount S + 1) else []))])"
  by (simp add: output_fn_filtered output_fn_events)



lemma match_from_nonempty: "match_from b s = Some g \<Longrightarrow> g \<noteq> []"
  by (induction b s rule: match_from.induct)
     (auto simp: match_here_def Let_def split: if_splits option.splits)

lemma step_hasWarned:
  "hasWarned (fst st) \<Longrightarrow> hasWarned (fst (step E config ctx c st))"
  by (cases c; cases st)
     (simp_all add: info_def warn_unfold warnOnce_unfold error_fn_unfold clearScreen_method_def
        output_fn_hasWarned)

lemma run_hasWarned:
  "hasWarned (fst st) \<Longrightarrow> hasWarned (fst (run E config ctx cs st))"
  by (induction cs arbitrary: st) (simp_all add: step_hasWarned)

lemma emitted_levels:
  "Print l t s \<in> set (emitted E config ctx c st) \<Longrightarrow> l = print_level config"
  by (cases st; cases c)
     (auto simp: emitted_output drop_output_events split: if_splits)

lemma emitted_nonempty_logs:
  "call_error c = Some e \<Longrightarrow> emitted E config ctx c st \<noteq> [] \<Longrightarrow>
   e \<in> loggedErrors (fst (step E config ctx c st))"
  by (cases st; cases c)
     (auto simp: emitted_output drop_output_events info_def warn_unfold warnOnce_unfold
        error_fn_unfold output_fn_loggedErrors split: if_splits)

text \<open>Events are only ever added, so the events a call adds are well defined.\<close>

lemma step_events:
  "events (snd (step E config ctx c st)) = events (snd st) @ emitted E config ctx c st"
proof (cases st)
  case (Pair L S)
  have out: "events (snd (output_fn E config ctx type msg options (L', S)))
      = events S @ drop (length (events S))
          (events (snd (output_fn E config ctx type msg options (L', S))))"
    for type msg and options :: "'a LogErrorOptions" and L' :: "'a ViteLogger"
    by (cases "filtered E config ctx type msg")
       (simp_all add: output_fn_filtered output_fn_events)
  show ?thesis
    unfolding Pair emitted_output
    by (cases c)
       (simp_all add: info_def warn_unfold warnOnce_unfold error_fn_unfold
          clearScreen_method_def clear_fn_def out [symmetric])
qed

text \<open>
  What a call does to the logger it is made on does not depend on the shared state, and so
  not on what other loggers of the module did in between.
\<close>

lemma step_logger_independent:
  "fst (step E config ctx c (L, S)) = fst (step E config ctx c (L, S'))"
  by (cases c)
     (simp_all add: info_def warn_unfold warnOnce_unfold error_fn_unfold clearScreen_method_def
        output_fn_def Let_def)

text \<open>
  Only \<^verbatim>\<open>warnOnce\<close> records a message: after any calls, the recorded messages are those
  recorded before and those of the \<^verbatim>\<open>warnOnce\<close> calls among them.
\<close>

lemma step_warnedMessages_upper:
  "m \<in> warnedMessages (fst (step E config ctx c st)) \<Longrightarrow>
   m \<in> warnedMessages (fst st) \<or> warnOnce_msg c = Some m"
  by (cases c; cases st)
     (auto simp: info_def warn_unfold warnOnce_unfold error_fn_unfold clearScreen_method_def
        output_fn_warnedMessages split: if_splits)

lemma run_warnedMessages_upper:
  "m \<in> warnedMessages (fst (run E config ctx cs st)) \<Longrightarrow>
   m \<in> warnedMessages (fst st) \<or> (\<exists>c \<in> set cs. warnOnce_msg c = Some m)"
proof (induction cs arbitrary: st)
  case Nil
  then show ?case by simp
next
  case (Cons c cs)
  from Cons.prems have "m \<in> warnedMessages (fst (run E config ctx cs (step E config ctx c st)))"
    by simp
  then have "m \<in> warnedMessages (fst (step E config ctx c st))
      \<or> (\<exists>c' \<in> set cs. warnOnce_msg c' = Some m)"
    by (rule Cons.IH)
  then show ?case
    using step_warnedMessages_upper [of m E config ctx c st] by auto
qed

lemma created_run_unwarned:
  "\<forall>c \<in> set pre. warnOnce_msg c \<noteq> Some msg \<Longrightarrow>
   msg \<notin> warnedMessages (fst (run E config ctx pre (createViteLogger E config ctx, S)))"
  using run_warnedMessages_upper [of msg E config ctx pre "(createViteLogger E config ctx, S)"]
  by (auto simp: createViteLogger_def)

lemma emitted_warnOnce_new:
  "msg \<notin> warnedMessages (fst st) \<Longrightarrow>
   emitted E config ctx (CallWarnOnce msg opts) st =
     (if filtered E config ctx Warn msg then []
      else (if canClearScreen E config
               \<and> ((lastType (snd st) = Some Warn \<and> lastMsg (snd st) = Some msg) \<or> clear opts)
            then [Cleared] else [])
           @ [Print (print_level config) Warn
                (msg @ (if lastType (snd st) = Some Warn \<and> lastMsg (snd st) = Some msg
                        then repeat_suffix E (duplicateCount (snd st) + 1) else []))])"
  by (cases st) (simp add: emitted_output drop_output_events)

subsection \<open>The claims about the logger\<close>

text \<open>
  Claim C1 says that the first \<^verbatim>\<open>warnOnce\<close> call with a given message produces output. It does
  not when the output filter drops the message: on a new logger, the first \<^verbatim>\<open>warnOnce\<close> of a
  source-map warning about \<^verbatim>\<open>node_modules\<close> adds no event.
\<close>

theorem warnOnce_first_call_counterexample:
  "sourcemap_msg \<notin> warnedMessages (fst fresh)
   \<and> emitted sample_env sample_config sample_ctx (CallWarnOnce sourcemap_msg no_options) fresh = []"
  by (simp add: fresh_def createViteLogger_def emitted_output drop_output_events
        filtered_def sample_env_def sourcemap_msg_def sublist_code)

text \<open>
  Claim C1, amended. Once \<^verbatim>\<open>warnOnce\<close> has been called with a message, every later
  \<^verbatim>\<open>warnOnce\<close> call with that message, after any further calls \<open>cs\<close> on the logger and in
  any shared state \<open>S'\<close>, changes nothing and so prints nothing. A \<^verbatim>\<open>warnOnce\<close> call with a
  message that is not recorded records the message, and it prints exactly one line, the
  message (with the repeat suffix when the shared last pair is this warning), unless the
  output filter drops the message, in which case it prints nothing. On a logger as
  \<^verbatim>\<open>createViteLogger\<close> returns it, after any calls \<open>pre\<close> none of which is a \<^verbatim>\<open>warnOnce\<close>
  with the message, the message is not recorded: the first \<^verbatim>\<open>warnOnce\<close> call with a
  message in a sequence of calls is such a call.
\<close>

theorem warnOnce_at_most_once:
  "warnOnce E config ctx msg opts'
     (fst (run E config ctx (CallWarnOnce msg opts # cs) st), S')
     = (fst (run E config ctx (CallWarnOnce msg opts # cs) st), S')
   \<and> (msg \<notin> warnedMessages (fst st) \<longrightarrow>
        msg \<in> warnedMessages (fst (warnOnce E config ctx msg opts st))
        \<and> emitted E config ctx (CallWarnOnce msg opts) st =
            (if filtered E config ctx Warn msg then []
             else (if canClearScreen E config
                      \<and> ((lastType (snd st) = Some Warn \<and> lastMsg (snd st) = Some msg)
                          \<or> clear opts)
                   then [Cleared] else [])
                  @ [Print (print_level config) Warn
                       (msg @ (if lastType (snd st) = Some Warn \<and> lastMsg (snd st) = Some msg
                               then repeat_suffix E (duplicateCount (snd st) + 1) else []))]))
   \<and> ((\<forall>c \<in> set pre. warnOnce_msg c \<noteq> Some msg) \<longrightarrow>
        (let st0 = run E config ctx pre (createViteLogger E config ctx, S)
         in msg \<notin> warnedMessages (fst st0)
            \<and> msg \<in> warnedMessages (fst (warnOnce E config ctx msg opts st0))
            \<and> emitted E config ctx (CallWarnOnce msg opts) st0 =
                (if filtered E config ctx Warn msg then []
                 else (if canClearScreen E config
                          \<and> ((lastType (snd st0) = Some Warn \<and> lastMsg (snd st0) = Some msg)
                              \<or> clear opts)
                       then [Cleared] else [])
                      @ [Print (print_level config) Warn
                           (msg @ (if lastType (snd st0) = Some Warn
                                      \<and> lastMsg (snd st0) = Some msg
                                   then repeat_suffix E (duplicateCount (snd st0) + 1)
                                   else []))])))"
proof (intro conjI impI)
  have "msg \<in> warnedMessages (fst (step E config ctx (CallWarnOnce msg opts) st))"
    by (simp add: warnOnce_records)
  then have "msg \<in> warnedMessages (fst (run E config ctx (CallWarnOnce msg opts # cs) st))"
    using run_warnedMessages [of "step E config ctx (CallWarnOnce msg opts) st" E config ctx cs]
    by auto
  then show "warnOnce E config ctx msg opts'
     (fst (run E config ctx (CallWarnOnce msg opts # cs) st), S')
     = (fst (run E config ctx (CallWarnOnce msg opts # cs) st), S')"
    by (simp add: warnOnce_seen)
next
  show "msg \<in> warnedMessages (fst (warnOnce E config ctx msg opts st))"
    by (rule warnOnce_records)
next
  assume "msg \<notin> warnedMessages (fst st)"
  then show "emitted E config ctx (CallWarnOnce msg opts) st =
            (if filtered E config ctx Warn msg then []
             else (if canClearScreen E config
                      \<and> ((lastType (snd st) = Some Warn \<and> lastMsg (snd st) = Some msg)
                          \<or> clear opts)
                   then [Cleared] else [])
                  @ [Print (print_level config) Warn
                       (msg @ (if lastType (snd st) = Some Warn \<and> lastMsg (snd st) = Some msg
                               then repeat_suffix E (duplicateCount (snd st) + 1) else []))])"
    by (rule emitted_warnOnce_new)
next
  assume "\<forall>c \<in> set pre. warnOnce_msg c \<noteq> Some msg"
  then have new: "msg \<notin> warnedMessages
      (fst (run E config ctx pre (createViteLogger E config ctx, S)))"
    by (rule created_run_unwarned)
  show "let st0 = run E config ctx pre (createViteLogger E config ctx, S)
         in msg \<notin> warnedMessages (fst st0)
            \<and> msg \<in> warnedMessages (fst (warnOnce E config ctx msg opts st0))
            \<and> emitted E config ctx (CallWarnOnce msg opts) st0 =
                (if filtered E config ctx Warn msg then []
                 else (if canClearScreen E config
                          \<and> ((lastType (snd st0) = Some Warn \<and> lastMsg (snd st0) = Some msg)
                              \<or> clear opts)
                       then [Cleared] else [])
                      @ [Print (print_level config) Warn
                           (msg @ (if lastType (snd st0) = Some Warn
                                      \<and> lastMsg (snd st0) = Some msg
                                   then repeat_suffix E (duplicateCount (snd st0) + 1)
                                   else []))])"
    unfolding Let_def
    using new emitted_warnOnce_new [OF new] warnOnce_records by blast
qed

text \<open>
  On a new logger, after a \<^verbatim>\<open>warn\<close> with the same message and an \<^verbatim>\<open>info\<close>, the first
  \<^verbatim>\<open>warnOnce\<close> of the message prints it, and a second one, after another \<^verbatim>\<open>info\<close>, prints
  nothing.
\<close>

theorem warnOnce_at_most_once_witness:
  "warnOnce_msg (CallWarn ''slow dep'' (no_options :: nat LogErrorOptions)) = None
   \<and> warnOnce_msg (CallInfo ''built'' (no_options :: nat LogErrorOptions)) = None
   \<and> emitted sample_env sample_config sample_ctx (CallWarnOnce ''slow dep'' no_options)
       (run sample_env sample_config sample_ctx
          [CallWarn ''slow dep'' no_options, CallInfo ''built'' no_options] fresh)
       = [Print 2 Warn ''slow dep'']
   \<and> emitted sample_env sample_config sample_ctx (CallWarnOnce ''slow dep'' no_options)
       (run sample_env sample_config sample_ctx
          [CallWarn ''slow dep'' no_options, CallInfo ''built'' no_options,
           CallWarnOnce ''slow dep'' no_options, CallInfo ''built'' no_options] fresh) = []"
proof -
  have pre: "\<forall>c \<in> set [CallWarn ''slow dep'' no_options,
        CallInfo ''built'' (no_options :: nat LogErrorOptions)].
      warnOnce_msg c \<noteq> Some ''slow dep''"
    by simp
  show ?thesis
    using pre
      warnOnce_at_most_once [where E = sample_env and config = sample_config
        and ctx = sample_ctx and msg = "''slow dep''" and opts = no_options
        and opts' = no_options and cs = "[CallInfo ''built'' no_options]"
        and st = "run sample_env sample_config sample_ctx
          [CallWarn ''slow dep'' no_options, CallInfo ''built'' no_options] fresh"
        and S' = "snd (run sample_env sample_config sample_ctx
          [CallWarn ''slow dep'' no_options, CallInfo ''built'' no_options,
           CallWarnOnce ''slow dep'' no_options, CallInfo ''built'' no_options] fresh)"
        and pre = "[CallWarn ''slow dep'' no_options, CallInfo ''built'' no_options]"
        and S = initial_shared]
    by (simp add: fresh_def createViteLogger_def emitted_def filtered_def sample_env_def
        sample_config_def sample_ctx_def no_options_def initial_shared_def print_level_def
        canClearScreen_def relativeOutDir_def sample_relative_def sublist_code
        RUNTIME_RESOLVE_REF_RE_match_def unresolved_phrase_def warn_def info_def
        warnOnce_def output_fn_def Let_def logger_call_def clearScreen_fn_def clear_fn_def)
qed

text \<open>
  Claim C2 says that a call to \<^verbatim>\<open>output\<close> with the type and message of the immediately
  preceding call increments the repeat counter and prints an annotated line. Two consecutive
  calls with the same filtered message do neither: the counter stays as it was and no event
  is recorded.
\<close>

theorem repeat_of_filtered_counterexample:
  "duplicateCount
     (snd (output_fn sample_env sample_config sample_ctx Warn sourcemap_msg no_options
        (output_fn sample_env sample_config sample_ctx Warn sourcemap_msg no_options fresh)))
     = duplicateCount
         (snd (output_fn sample_env sample_config sample_ctx Warn sourcemap_msg no_options fresh))
   \<and> events
       (snd (output_fn sample_env sample_config sample_ctx Warn sourcemap_msg no_options
          (output_fn sample_env sample_config sample_ctx Warn sourcemap_msg no_options fresh)))
     = []"
proof -
  have f: "filtered sample_env sample_config sample_ctx Warn sourcemap_msg"
    by (simp add: filtered_def sample_env_def sourcemap_msg_def sublist_code)
  show ?thesis
    by (simp add: output_fn_filtered [OF f] fresh_def initial_shared_def)
qed

text \<open>
  Claim C2, amended. For a call to \<^verbatim>\<open>output\<close> that the filter lets through, the shared state
  holds the (type, message) pair of the last such call. If the call has that pair, the
  repeat counter is incremented and the line printed is the message followed by the dimmed
  suffix \<^verbatim>\<open> (xN)\<close>, where \<open>N\<close> is the new counter plus one, after the screen is cleared when
  clearing is enabled. Otherwise the counter becomes zero and the message is printed as it
  is. In both cases the pair recorded afterwards is the pair of this call.
\<close>

theorem output_tracks_last_pair:
  assumes "\<not> filtered E config ctx type msg"
  shows "lastType (snd (output_fn E config ctx type msg options (L, S))) = Some type
   \<and> lastMsg (snd (output_fn E config ctx type msg options (L, S))) = Some msg
   \<and> (lastType S = Some type \<and> lastMsg S = Some msg \<longrightarrow>
        duplicateCount (snd (output_fn E config ctx type msg options (L, S)))
          = duplicateCount S + 1
        \<and> events (snd (output_fn E config ctx type msg options (L, S)))
          = events S @ (if canClearScreen E config then [Cleared] else [])
            @ [Print (print_level config) type
                 (msg @ colorize E ''dim''
                    ('' (x'' @ string_of_nat (duplicateCount S + 2) @ '')''))])
   \<and> (\<not> (lastType S = Some type \<and> lastMsg S = Some msg) \<longrightarrow>
        duplicateCount (snd (output_fn E config ctx type msg options (L, S))) = 0
        \<and> events (snd (output_fn E config ctx type msg options (L, S)))
          = events S @ (if canClearScreen E config \<and> clear options then [Cleared] else [])
            @ [Print (print_level config) type msg])"
  using assms
  by (simp add: output_fn_last output_fn_duplicateCount output_fn_events repeat_suffix_def)

text \<open>
  Two consecutive identical warnings on a new logger: the second is printed with the suffix
  \<^verbatim>\<open> (x2)\<close> and the counter is 1.
\<close>

theorem output_tracks_last_pair_witness:
  "\<not> filtered sample_env sample_config sample_ctx Warn ''slow dep''
   \<and> events (snd (output_fn sample_env sample_config sample_ctx Warn ''slow dep'' no_options
        (output_fn sample_env sample_config sample_ctx Warn ''slow dep'' no_options fresh)))
     = [Print 2 Warn ''slow dep'', Cleared, Print 2 Warn ''slow dep (x2)'']
   \<and> duplicateCount (snd (output_fn sample_env sample_config sample_ctx Warn ''slow dep''
        no_options
        (output_fn sample_env sample_config sample_ctx Warn ''slow dep'' no_options fresh))) = 1"
proof -
  have nf: "\<not> filtered sample_env sample_config sample_ctx Warn ''slow dep''"
    by (simp add: filtered_def sample_env_def sample_ctx_def sublist_code
          unresolved_phrase_def)
  have two: "string_of_nat (Suc (Suc 0)) = ''2''"
    by code_simp
  have cc: "canClearScreen sample_env sample_config"
    by (simp add: canClearScreen_def sample_env_def sample_config_def)
  have pl: "print_level sample_config = 2"
    by (simp add: print_level_def sample_config_def)
  have col: "colorize sample_env = sample_colorize"
    by (simp add: sample_env_def)
  have first: "output_fn sample_env sample_config sample_ctx Warn ''slow dep'' no_options fresh
      = (fst fresh, \<lparr>duplicateCount = 0, lastType = Some Warn, lastMsg = Some ''slow dep'',
           level = 3, events = [Print 2 Warn ''slow dep'']\<rparr>)"
    using nf pl
    by (simp add: output_fn_def fresh_def initial_shared_def no_options_def Let_def
          logger_call_def print_level_def)
  show ?thesis
    using nf output_tracks_last_pair [OF nf, of no_options "fst fresh"
        "\<lparr>duplicateCount = 0, lastType = Some Warn, lastMsg = Some ''slow dep'',
           level = 3, events = [Print 2 Warn ''slow dep'']\<rparr>"]
    by (simp add: first two cc pl col sample_colorize_def)
qed

text \<open>
  Claim C3 says that every logger call carrying an error object remembers it. An
  \<^verbatim>\<open>error\<close> call whose message the filter drops returns before the object is added:
  \<^verbatim>\<open>hasErrorLogged\<close> is false for it afterwards.
\<close>

theorem filtered_error_not_logged_counterexample:
  "call_error sourcemap_error = Some 7
   \<and> \<not> hasErrorLogged 7 (fst (step sample_env sample_config sample_ctx sourcemap_error fresh))"
proof -
  have f: "filtered sample_env sample_config sample_ctx Error sourcemap_msg"
    by (simp add: filtered_def sample_env_def sourcemap_msg_def sublist_code)
  show ?thesis
    by (simp add: sourcemap_error_def fresh_def error_fn_unfold output_fn_filtered [OF f]
          hasErrorLogged_def createViteLogger_def)
qed

text \<open>
  Claim C3, amended. Whenever a logger call that carries the error object \<open>e\<close> prints
  (it is not dropped by the output filter, and it is not a \<^verbatim>\<open>warnOnce\<close> of a message already
  warned), \<open>e\<close> is remembered: \<^verbatim>\<open>hasErrorLogged(e)\<close> is true after any further calls
  \<open>cs\<close>. On a logger as \<^verbatim>\<open>createViteLogger\<close> returns it, \<^verbatim>\<open>hasErrorLogged(e)\<close> is true
  after the calls \<open>cs\<close> only if one of them carried \<open>e\<close>.
\<close>

theorem logged_errors_remembered:
  "(call_error c = Some e \<and> emitted E config ctx c st \<noteq> [] \<longrightarrow>
      hasErrorLogged e (fst (run E config ctx cs (step E config ctx c st))))
   \<and> (hasErrorLogged e (fst (run E config ctx cs (createViteLogger E config ctx, S))) \<longrightarrow>
        (\<exists>c \<in> set cs. call_error c = Some e))"
proof (intro conjI impI)
  assume "call_error c = Some e \<and> emitted E config ctx c st \<noteq> []"
  then have "e \<in> loggedErrors (fst (step E config ctx c st))"
    by (simp add: emitted_nonempty_logs)
  then show "hasErrorLogged e (fst (run E config ctx cs (step E config ctx c st)))"
    using run_loggedErrors_mono [of "step E config ctx c st" E config ctx cs]
    by (auto simp: hasErrorLogged_def)
next
  assume "hasErrorLogged e (fst (run E config ctx cs (createViteLogger E config ctx, S)))"
  then show "\<exists>c \<in> set cs. call_error c = Some e"
    using run_loggedErrors_upper [of e E config ctx cs "(createViteLogger E config ctx, S)"]
    by (auto simp: hasErrorLogged_def createViteLogger_def)
qed

text \<open>
  An \<^verbatim>\<open>error\<close> call that prints and carries error object 7: the object is remembered after
  a further \<^verbatim>\<open>info\<close> call, and object 8, which no call carried, is not.
\<close>

theorem logged_errors_remembered_witness:
  "call_error build_failed = Some 7
   \<and> emitted sample_env sample_config sample_ctx build_failed fresh \<noteq> []
   \<and> hasErrorLogged 7
       (fst (run sample_env sample_config sample_ctx [CallInfo ''built'' no_options]
          (step sample_env sample_config sample_ctx build_failed fresh)))
   \<and> \<not> hasErrorLogged 8 (fst (run sample_env sample_config sample_ctx [build_failed] fresh))"
proof -
  have nf: "\<not> filtered sample_env sample_config sample_ctx Error ''build failed''"
    by (simp add: filtered_def sample_env_def sample_ctx_def sublist_code
          unresolved_phrase_def)
  have ce: "call_error build_failed = Some 7"
    by (simp add: build_failed_def)
  have em: "emitted sample_env sample_config sample_ctx build_failed fresh \<noteq> []"
    using nf by (simp add: build_failed_def fresh_def emitted_output drop_output_events)
  have no8: "\<not> (\<exists>c \<in> set [build_failed]. call_error c = Some 8)"
    by (simp add: build_failed_def)
  have h7: "hasErrorLogged 7
       (fst (run sample_env sample_config sample_ctx [CallInfo ''built'' no_options]
          (step sample_env sample_config sample_ctx build_failed fresh)))"
    using ce em
      logged_errors_remembered [where c = build_failed and e = 7 and E = sample_env
        and config = sample_config and ctx = sample_ctx and st = fresh
        and cs = "[CallInfo ''built'' no_options]"]
    by blast
  have h8: "\<not> hasErrorLogged 8
       (fst (run sample_env sample_config sample_ctx [build_failed] fresh))"
    using no8
      logged_errors_remembered [where e = 8 and E = sample_env
        and config = sample_config and ctx = sample_ctx and cs = "[build_failed]"
        and S = initial_shared]
    unfolding fresh_def by blast
  show ?thesis
    using ce em h7 h8 by blast
qed

text \<open>
  Claim C6 says that the filter drops every source-map warning about \<^verbatim>\<open>node_modules\<close>. When
  the environment variable \<^verbatim>\<open>DEBUG\<close> is set the filter is skipped, and the warning is
  printed.
\<close>

theorem filter_open_under_debug_counterexample:
  "prefix ''Sourcemap'' sourcemap_msg \<and> sublist ''node_modules'' sourcemap_msg
   \<and> emitted debug_env sample_config sample_ctx (CallWarn sourcemap_msg no_options) fresh
       = [Print 2 Warn sourcemap_msg]"
proof -
  have nf: "\<not> filtered debug_env sample_config sample_ctx Warn sourcemap_msg"
    by (simp add: filtered_def debug_env_def sample_env_def)
  show ?thesis
    using nf
    by (simp add: fresh_def emitted_output output_fn_events initial_shared_def no_options_def
          print_level_def sample_config_def)
       (simp add: sourcemap_msg_def sublist_code)
qed

text \<open>
  Claim C6, amended. When the environment variable \<^verbatim>\<open>DEBUG\<close> is not set, a call to
  \<^verbatim>\<open>output\<close> of any type and with any options changes nothing, and so prints nothing, for:
  a message that starts with \<^verbatim>\<open>Sourcemap\<close> and contains \<^verbatim>\<open>node_modules\<close>; a message that
  contains the phrase \<^verbatim>\<open>didn't resolve at build time, it will remain unchanged to be resolved at runtime\<close>
  and whose referenced id, the text before \<^verbatim>\<open> referenced in\<close> at the start of a line of
  the trimmed message, resolves to a public asset; and an \<^verbatim>\<open>info\<close> message that contains the
  relative output directory when \<^verbatim>\<open>hideOutput\<close> is requested.
\<close>

theorem filter_suppresses_noise:
  assumes "\<not> DEBUG E"
  shows "(prefix ''Sourcemap'' msg \<and> sublist ''node_modules'' msg \<longrightarrow>
            output_fn E config ctx type msg options st = st)
   \<and> (sublist unresolved_phrase msg
       \<and> RUNTIME_RESOLVE_REF_RE_match (trim msg) = Some ident
       \<and> resolveFromPublicAssets E ident \<longrightarrow>
            output_fn E config ctx type msg options st = st)
   \<and> (type = Info \<and> hideOutput ctx \<and> sublist (relativeOutDir E config) msg \<longrightarrow>
            output_fn E config ctx type msg options st = st)"
proof (intro conjI impI)
  assume "prefix ''Sourcemap'' msg \<and> sublist ''node_modules'' msg"
  with assms have "filtered E config ctx type msg"
    by (simp add: filtered_def)
  then show "output_fn E config ctx type msg options st = st"
    by (rule output_fn_filtered)
next
  assume a: "sublist unresolved_phrase msg
       \<and> RUNTIME_RESOLVE_REF_RE_match (trim msg) = Some ident
       \<and> resolveFromPublicAssets E ident"
  then have "ident \<noteq> []"
    using match_from_nonempty [of True "trim msg" ident]
    by (simp add: RUNTIME_RESOLVE_REF_RE_match_def)
  with a assms have "filtered E config ctx type msg"
    by (simp add: filtered_def)
  then show "output_fn E config ctx type msg options st = st"
    by (rule output_fn_filtered)
next
  assume "type = Info \<and> hideOutput ctx \<and> sublist (relativeOutDir E config) msg"
  with assms have "filtered E config ctx type msg"
    by (simp add: filtered_def)
  then show "output_fn E config ctx type msg options st = st"
    by (rule output_fn_filtered)
qed

text \<open>
  The three kinds of message in the sample environment: each call returns the state it was
  given.
\<close>

theorem filter_suppresses_noise_witness:
  "\<not> DEBUG sample_env
   \<and> output_fn sample_env sample_config sample_ctx Warn sourcemap_msg no_options fresh = fresh
   \<and> output_fn sample_env sample_config sample_ctx Warn unresolved_msg no_options fresh = fresh
   \<and> output_fn sample_env sample_config sample_ctx Info outdir_msg no_options fresh = fresh"
proof -
  have d: "\<not> DEBUG sample_env"
    by (simp add: sample_env_def)
  have s1: "prefix ''Sourcemap'' sourcemap_msg \<and> sublist ''node_modules'' sourcemap_msg"
    by (simp add: sourcemap_msg_def sublist_code)
  have s2: "sublist unresolved_phrase unresolved_msg
       \<and> RUNTIME_RESOLVE_REF_RE_match (trim unresolved_msg) = Some ''/logo.png''
       \<and> resolveFromPublicAssets sample_env ''/logo.png''"
    by code_simp
  have s3: "Info = Info \<and> hideOutput sample_ctx
       \<and> sublist (relativeOutDir sample_env sample_config) outdir_msg"
    by code_simp
  show ?thesis
    using d s1 s2 s3
      filter_suppresses_noise [OF d, where msg = sourcemap_msg and type = Warn
        and config = sample_config and ctx = sample_ctx and options = no_options
        and st = fresh]
      filter_suppresses_noise [OF d, where msg = unresolved_msg and type = Warn
        and ident = "''/logo.png''" and config = sample_config and ctx = sample_ctx
        and options = no_options and st = fresh]
      filter_suppresses_noise [OF d, where msg = outdir_msg and type = Info
        and config = sample_config and ctx = sample_ctx and options = no_options
        and st = fresh]
    by blast
qed

text \<open>
  Claim C9. After any call of \<^verbatim>\<open>info\<close>, \<^verbatim>\<open>warn\<close>, \<^verbatim>\<open>warnOnce\<close>, \<^verbatim>\<open>error\<close> or
  \<^verbatim>\<open>clearScreen\<close>, \<^verbatim>\<open>logger.level\<close> is what it was before the call, and every line the call
  prints is printed while \<^verbatim>\<open>logger.level\<close> is the number that \<^verbatim>\<open>logLevelMapReverse\<close> gives
  for \<^verbatim>\<open>config.logLevel || 'info'\<close>.
\<close>

theorem level_restored_after_print:
  "level (snd (step E config ctx c st)) = level (snd st)
   \<and> (\<forall>l t s. Print l t s \<in> set (emitted E config ctx c st) \<longrightarrow>
         l = logLevelMapReverse (case logLevel config of None \<Rightarrow> LevelInfo | Some v \<Rightarrow> v))"
  using emitted_levels [of _ _ _ E config ctx c st]
  by (auto simp: step_level print_level_def)

text \<open>
  A warning on a new logger, with the kit's logger at level 3 and \<^verbatim>\<open>logLevel: 'warn'\<close>: the
  line is printed at level 2, and the level is 3 again afterwards.
\<close>

theorem level_restored_after_print_witness:
  "level (snd fresh) = 3
   \<and> emitted sample_env sample_config sample_ctx (CallWarn ''slow dep'' no_options) fresh
       = [Print 2 Warn ''slow dep'']
   \<and> level (snd (step sample_env sample_config sample_ctx (CallWarn ''slow dep'' no_options)
        fresh)) = 3
   \<and> logLevelMapReverse (case logLevel sample_config of None \<Rightarrow> LevelInfo | Some v \<Rightarrow> v) = 2"
proof -
  have nf: "\<not> filtered sample_env sample_config sample_ctx Warn ''slow dep''"
    by (simp add: filtered_def sample_env_def sample_ctx_def sublist_code
          unresolved_phrase_def)
  have l0: "level (snd fresh) = 3"
    by (simp add: fresh_def initial_shared_def)
  have pl: "logLevelMapReverse (case logLevel sample_config of None \<Rightarrow> LevelInfo | Some v \<Rightarrow> v) = 2"
    by (simp add: sample_config_def)
  have em: "emitted sample_env sample_config sample_ctx (CallWarn ''slow dep'' no_options) fresh
       = [Print 2 Warn ''slow dep'']"
    using nf pl
    by (simp add: fresh_def emitted_output output_fn_events initial_shared_def
          no_options_def print_level_def)
  show ?thesis
    using l0 em pl
      level_restored_after_print [of sample_env sample_config sample_ctx
        "CallWarn ''slow dep'' no_options" fresh]
    by simp
qed

text \<open>
  Claim C10. \<^verbatim>\<open>hasWarned\<close> is false on the logger \<^verbatim>\<open>createViteLogger\<close> returns; it is true
  after every \<^verbatim>\<open>warn\<close>, after every \<^verbatim>\<open>error\<close>, and after every \<^verbatim>\<open>warnOnce\<close> whose
  message was not seen before; \<^verbatim>\<open>info\<close> leaves it as it is; and once true it is true after
  any sequence of calls.
\<close>

theorem hasWarned_only_rises:
  "\<not> hasWarned (createViteLogger E config ctx)
   \<and> hasWarned (fst (warn E config ctx msg opts st))
   \<and> hasWarned (fst (error_fn E config ctx msg opts st))
   \<and> (msg \<notin> warnedMessages (fst st) \<longrightarrow> hasWarned (fst (warnOnce E config ctx msg opts st)))
   \<and> hasWarned (fst (info E config ctx msg opts st)) = hasWarned (fst st)
   \<and> (hasWarned (fst st) \<longrightarrow> hasWarned (fst (run E config ctx cs st)))"
proof (intro conjI impI)
  show "\<not> hasWarned (createViteLogger E config ctx)"
    by (simp add: createViteLogger_def)
  show "hasWarned (fst (warn E config ctx msg opts st))"
    by (cases st) (simp add: warn_unfold output_fn_hasWarned)
  show "hasWarned (fst (error_fn E config ctx msg opts st))"
    by (cases st) (simp add: error_fn_unfold output_fn_hasWarned)
  show "hasWarned (fst (info E config ctx msg opts st)) = hasWarned (fst st)"
    by (cases st) (simp add: info_def output_fn_hasWarned)
next
  assume "msg \<notin> warnedMessages (fst st)"
  then show "hasWarned (fst (warnOnce E config ctx msg opts st))"
    by (cases st) (simp add: warnOnce_unfold output_fn_hasWarned)
next
  assume "hasWarned (fst st)"
  then show "hasWarned (fst (run E config ctx cs st))"
    by (rule run_hasWarned)
qed

text \<open>
  On a new logger: a first \<^verbatim>\<open>warnOnce\<close> sets \<^verbatim>\<open>hasWarned\<close>, an \<^verbatim>\<open>info\<close> does not, and after
  a \<^verbatim>\<open>warn\<close> it stays set through further calls.
\<close>

theorem hasWarned_only_rises_witness:
  "\<not> hasWarned (fst fresh)
   \<and> ''slow dep'' \<notin> warnedMessages (fst fresh)
   \<and> hasWarned (fst (warnOnce sample_env sample_config sample_ctx ''slow dep'' no_options fresh))
   \<and> \<not> hasWarned (fst (info sample_env sample_config sample_ctx ''built'' no_options fresh))
   \<and> hasWarned (fst (run sample_env sample_config sample_ctx
        [CallInfo ''built'' no_options, CallClearScreen, CallWarnOnce ''slow dep'' no_options]
        (warn sample_env sample_config sample_ctx ''slow dep'' no_options fresh)))"
proof -
  have a: "\<not> hasWarned (fst fresh)" "''slow dep'' \<notin> warnedMessages (fst fresh)"
    by (simp_all add: fresh_def createViteLogger_def)
  show ?thesis
    using a
      hasWarned_only_rises [of sample_env sample_config sample_ctx "''slow dep''" no_options
        fresh "[]"]
      hasWarned_only_rises [of sample_env sample_config sample_ctx "''built''" no_options
        fresh "[]"]
      hasWarned_only_rises [of sample_env sample_config sample_ctx "''slow dep''" no_options
        "warn sample_env sample_config sample_ctx ''slow dep'' no_options fresh"
        "[CallInfo ''built'' no_options, CallClearScreen, CallWarnOnce ''slow dep'' no_options]"]
    by blast
qed

section \<open>Properties of the classifier\<close>

lemma JS_RE_test_script_extensions:
  "JS_RE_test ''.js''" "JS_RE_test ''.mjs''" "JS_RE_test ''.cjs''" "JS_RE_test ''.ts''"
  "JS_RE_test ''.jsx''" "JS_RE_test ''.mjsx''" "JS_RE_test ''.cjsx''" "JS_RE_test ''.tsx''"
  by (simp_all add: JS_RE_test_def suffix_def)

lemma JS_RE_test_vue: "\<not> JS_RE_test ''.vue''"
  by (simp add: JS_RE_test_def suffix_to_prefix)

lemma getLoader_Inr:
  "parse_id libs ident = Inr parsed \<Longrightarrow>
   getLoader libs ident =
     Inr (if extname libs (pathname parsed) = ''.vue'' then Some ''vue''
          else if \<not> JS_RE_test (extname libs (pathname parsed)) then None
          else if suffix ''x'' (extname libs (pathname parsed)) then Some ''tsx''
          else Some ''ts'')"
  by (simp add: getLoader_def Let_def)

text \<open>
  What the sample libraries give for four module ids.
\<close>

lemma sample_parse_vue:
  "parse_id sample_libs ''/app/pages/index.vue''
     = Inr \<lparr>pathname = ''/app/pages/index.vue'', search = []\<rparr>"
  by code_simp

lemma sample_parse_style:
  "parse_id sample_libs ''/app/pages/index.vue?vue&type=style''
     = Inr \<lparr>pathname = ''/app/pages/index.vue'', search = ''?vue&type=style''\<rparr>"
  by code_simp

lemma sample_parse_css:
  "parse_id sample_libs ''/app/assets/main.css''
     = Inr \<lparr>pathname = ''/app/assets/main.css'', search = []\<rparr>"
  by code_simp

lemma sample_parse_tsx:
  "parse_id sample_libs ''/app/components/Menu.tsx''
     = Inr \<lparr>pathname = ''/app/components/Menu.tsx'', search = []\<rparr>"
  by code_simp

lemma sample_query_style:
  "parseQuery sample_libs ''?vue&type=style'' = [''vue'' \<mapsto> Str [], ''type'' \<mapsto> Str ''style'']"
  by (simp add: sample_libs_def sample_parseQuery_def add_parameter_def Let_def)


text \<open>
  Claim C8 says that \<^verbatim>\<open>isVue\<close> returns true for every id that ends with \<^verbatim>\<open>.vue\<close> and
  carries no query string. With a library that rejects the UNC path \<^verbatim>\<open>\\server.vue\<close>,
  \<^verbatim>\<open>isVue\<close> throws on it: \<^verbatim>\<open>pathToFileURL\<close> is called before the test of the ending.
\<close>

theorem bare_vue_counterexample:
  "suffix ''.vue'' (unc_path @ ''.vue'')
   \<and> isVue unc_libs (unc_path @ ''.vue'') no_opts = Inl ERR_INVALID_ARG_VALUE"
  by code_simp

text \<open>
  Claim C8, amended. For every id on which the library calls return, that ends with
  \<^verbatim>\<open>.vue\<close> and whose parsed URL has an empty query string, \<^verbatim>\<open>isVue\<close> returns true,
  whatever \<^verbatim>\<open>opts.type\<close> is.
\<close>

theorem isVue_bare_vue_file:
  assumes "suffix ''.vue'' ident"
    and "parse_id libs ident = Inr parsed"
    and "search parsed = []"
  shows "isVue libs ident opts = Inr True"
  using assms by (simp add: isVue_def)

text \<open>
  A page component, asked for with the filter \<^verbatim>\<open>['template']\<close>.
\<close>

theorem isVue_bare_vue_file_witness:
  "suffix ''.vue'' ''/app/pages/index.vue''
   \<and> parse_id sample_libs ''/app/pages/index.vue''
       = Inr \<lparr>pathname = ''/app/pages/index.vue'', search = []\<rparr>
   \<and> isVue sample_libs ''/app/pages/index.vue'' \<lparr>type_opt = Some [''template'']\<rparr> = Inr True"
proof -
  have s: "suffix ''.vue'' ''/app/pages/index.vue''"
    by (simp add: suffix_to_prefix)
  show ?thesis
    using s sample_parse_vue
      isVue_bare_vue_file [OF s sample_parse_vue, of "\<lparr>type_opt = Some [''template'']\<rparr>"]
    by simp
qed

text \<open>
  Claim C7 says that \<^verbatim>\<open>isVue\<close> classifies every id whose query string is
  \<^verbatim>\<open>?vue&type=style\<close>. With a library that rejects the UNC path \<^verbatim>\<open>\\server\<close>, \<^verbatim>\<open>isVue\<close>
  throws on that path followed by the query; and in \<^verbatim>\<open>/app/c#/x.vue?vue&type=style\<close> the
  query follows a \<^verbatim>\<open>#\<close>, the parsed URL has no query string, and \<^verbatim>\<open>isVue\<close> returns false
  without a filter.
\<close>

theorem style_query_counterexample:
  "isVue unc_libs (unc_path @ ''?vue&type=style'') no_opts = Inl ERR_INVALID_ARG_VALUE
   \<and> isVue sample_libs ''/app/c#/x.vue?vue&type=style'' no_opts = Inr False"
  by code_simp

text \<open>
  Claim C7, amended. For every id on which the library calls return and whose parsed URL has
  the query string \<^verbatim>\<open>?vue&type=style\<close>, which \<^verbatim>\<open>parseQuery\<close> turns into the keys \<^verbatim>\<open>vue\<close>
  (empty) and \<^verbatim>\<open>type\<close> (\<^verbatim>\<open>style\<close>), \<^verbatim>\<open>isVue\<close> returns true when \<^verbatim>\<open>opts.type\<close> is absent
  or includes \<^verbatim>\<open>style\<close>, and false when \<^verbatim>\<open>opts.type\<close> is given and does not include
  \<^verbatim>\<open>style\<close>.
\<close>

theorem isVue_style_block:
  assumes "parse_id libs ident = Inr parsed"
    and "search parsed = ''?vue&type=style''"
    and "parseQuery libs ''?vue&type=style'' = [''vue'' \<mapsto> Str [], ''type'' \<mapsto> Str ''style'']"
  shows "isVue libs ident opts =
           Inr (case type_opt opts of None \<Rightarrow> True | Some ts \<Rightarrow> ''style'' \<in> set ts)"
  using assms by (simp add: isVue_def Let_def split: option.splits)

text \<open>
  The style block of a page component: without a filter, with a filter that has
  \<^verbatim>\<open>style\<close>, and with one that does not.
\<close>

theorem isVue_style_block_witness:
  "parse_id sample_libs ''/app/pages/index.vue?vue&type=style''
     = Inr \<lparr>pathname = ''/app/pages/index.vue'', search = ''?vue&type=style''\<rparr>
   \<and> parseQuery sample_libs ''?vue&type=style'' = [''vue'' \<mapsto> Str [], ''type'' \<mapsto> Str ''style'']
   \<and> isVue sample_libs ''/app/pages/index.vue?vue&type=style'' no_opts = Inr True
   \<and> isVue sample_libs ''/app/pages/index.vue?vue&type=style''
        \<lparr>type_opt = Some [''template'', ''style'']\<rparr> = Inr True
   \<and> isVue sample_libs ''/app/pages/index.vue?vue&type=style''
        \<lparr>type_opt = Some [''template'', ''script'']\<rparr> = Inr False"
  using sample_parse_style sample_query_style
    isVue_style_block [OF sample_parse_style _ sample_query_style, of no_opts]
    isVue_style_block [OF sample_parse_style _ sample_query_style,
      of "\<lparr>type_opt = Some [''template'', ''style'']\<rparr>"]
    isVue_style_block [OF sample_parse_style _ sample_query_style,
      of "\<lparr>type_opt = Some [''template'', ''script'']\<rparr>"]
  by (simp add: no_opts_def)

text \<open>
  Claim C5 says that \<^verbatim>\<open>getLoader\<close> returns null when the extension is not in the script-like
  set. The extension \<^verbatim>\<open>.vue\<close> is not in that set (\<^verbatim>\<open>JS_RE\<close> does not match it), and
  \<^verbatim>\<open>getLoader\<close> returns \<^verbatim>\<open>'vue'\<close> for it.
\<close>

theorem vue_extension_counterexample:
  "parse_id sample_libs ''/app/pages/index.vue''
     = Inr \<lparr>pathname = ''/app/pages/index.vue'', search = []\<rparr>
   \<and> extname sample_libs ''/app/pages/index.vue'' = ''.vue''
   \<and> \<not> JS_RE_test ''.vue''
   \<and> getLoader sample_libs ''/app/pages/index.vue'' = Inr (Some ''vue'')"
proof -
  have e: "extname sample_libs ''/app/pages/index.vue'' = ''.vue''"
    by code_simp
  show ?thesis
    using e by (simp add: sample_parse_vue JS_RE_test_vue getLoader_Inr [OF sample_parse_vue])
qed

text \<open>
  Claim C5, amended. For every id the libraries parse, \<^verbatim>\<open>getLoader\<close> returns \<^verbatim>\<open>'tsx'\<close>
  when the extension of the pathname is \<^verbatim>\<open>.tsx\<close> (and for \<^verbatim>\<open>.jsx\<close>, \<^verbatim>\<open>.mjsx\<close>, \<^verbatim>\<open>.cjsx\<close>),
  \<^verbatim>\<open>'ts'\<close> when it is \<^verbatim>\<open>.js\<close>, \<^verbatim>\<open>.mjs\<close>, \<^verbatim>\<open>.cjs\<close> or \<^verbatim>\<open>.ts\<close>, \<^verbatim>\<open>'vue'\<close> when it is
  \<^verbatim>\<open>.vue\<close>, and null when it is neither \<^verbatim>\<open>.vue\<close> nor matched by \<^verbatim>\<open>JS_RE\<close>.
\<close>

theorem getLoader_by_extension:
  assumes "parse_id libs ident = Inr parsed"
  shows "(extname libs (pathname parsed) = ''.tsx'' \<longrightarrow>
            getLoader libs ident = Inr (Some ''tsx''))
   \<and> (extname libs (pathname parsed) \<in> {''.jsx'', ''.mjsx'', ''.cjsx''} \<longrightarrow>
            getLoader libs ident = Inr (Some ''tsx''))
   \<and> (extname libs (pathname parsed) \<in> {''.js'', ''.mjs'', ''.cjs'', ''.ts''} \<longrightarrow>
            getLoader libs ident = Inr (Some ''ts''))
   \<and> (extname libs (pathname parsed) = ''.vue'' \<longrightarrow>
            getLoader libs ident = Inr (Some ''vue''))
   \<and> (extname libs (pathname parsed) \<noteq> ''.vue'' \<and> \<not> JS_RE_test (extname libs (pathname parsed))
         \<longrightarrow> getLoader libs ident = Inr None)"
  by (auto simp: getLoader_Inr [OF assms] JS_RE_test_script_extensions suffix_to_prefix)

text \<open>
  A \<^verbatim>\<open>.tsx\<close> component and a style sheet.
\<close>

theorem getLoader_by_extension_witness:
  "parse_id sample_libs ''/app/components/Menu.tsx''
     = Inr \<lparr>pathname = ''/app/components/Menu.tsx'', search = []\<rparr>
   \<and> extname sample_libs ''/app/components/Menu.tsx'' = ''.tsx''
   \<and> getLoader sample_libs ''/app/components/Menu.tsx'' = Inr (Some ''tsx'')
   \<and> extname sample_libs ''/app/assets/main.css'' = ''.css''
   \<and> \<not> JS_RE_test ''.css''
   \<and> getLoader sample_libs ''/app/assets/main.css'' = Inr None"
proof -
  have e1: "extname sample_libs ''/app/components/Menu.tsx'' = ''.tsx''"
    by code_simp
  have e2: "extname sample_libs ''/app/assets/main.css'' = ''.css''"
    by code_simp
  have n: "\<not> JS_RE_test ''.css''"
    by (simp add: JS_RE_test_def suffix_to_prefix)
  show ?thesis
    using e1 e2 n sample_parse_tsx
      getLoader_by_extension [OF sample_parse_tsx]
      getLoader_by_extension [OF sample_parse_css]
    by simp
qed

text \<open>
  Claim C4 says that the three functions never throw. They have no handler around
  \<^verbatim>\<open>pathToFileURL\<close> and \<^verbatim>\<open>decodeURIComponent\<close>: with a library that rejects the UNC path
  \<^verbatim>\<open>\\server\<close>, all three throw its error on that id.
\<close>

theorem library_exception_counterexample:
  "isVue unc_libs unc_path no_opts = Inl ERR_INVALID_ARG_VALUE
   \<and> isJS unc_libs unc_path = Inl ERR_INVALID_ARG_VALUE
   \<and> getLoader unc_libs unc_path = Inl ERR_INVALID_ARG_VALUE"
proof -
  have "parse_id unc_libs unc_path = Inl ERR_INVALID_ARG_VALUE"
    by code_simp
  then show ?thesis
    by (simp add: isVue_def isJS_def getLoader_def)
qed

text \<open>
  Claim C4, amended. \<^verbatim>\<open>isVue\<close>, \<^verbatim>\<open>isJS\<close> and \<^verbatim>\<open>getLoader\<close> throw only the exception that
  \<^verbatim>\<open>pathToFileURL\<close> or \<^verbatim>\<open>decodeURIComponent\<close> throws on the id. Whenever these two return,
  \<^verbatim>\<open>isVue\<close> and \<^verbatim>\<open>isJS\<close> return a boolean: \<^verbatim>\<open>isVue\<close> returns false for an id without a
  query string that does not end with \<^verbatim>\<open>.vue\<close> and for a query with neither a truthy
  \<^verbatim>\<open>macro\<close> nor a \<^verbatim>\<open>vue\<close> key, and \<^verbatim>\<open>isJS\<close> returns false when \<^verbatim>\<open>JS_RE\<close> does not match
  the pathname; and \<^verbatim>\<open>getLoader\<close> returns one of \<^verbatim>\<open>'vue'\<close>, \<^verbatim>\<open>'ts'\<close>, \<^verbatim>\<open>'tsx'\<close> or
  null, null exactly when the extension is neither \<^verbatim>\<open>.vue\<close> nor matched by \<^verbatim>\<open>JS_RE\<close>.
\<close>

theorem classifiers_fail_only_with_libraries:
  "(parse_id libs ident = Inl e \<longrightarrow>
      isVue libs ident opts = Inl e \<and> isJS libs ident = Inl e \<and> getLoader libs ident = Inl e)
   \<and> (parse_id libs ident = Inr parsed \<longrightarrow>
        (isVue libs ident opts = Inr True \<or> isVue libs ident opts = Inr False)
        \<and> (search parsed = [] \<and> \<not> suffix ''.vue'' ident \<longrightarrow> isVue libs ident opts = Inr False)
        \<and> (search parsed \<noteq> [] \<and> \<not> truthy (parseQuery libs (search parsed) ''macro'')
             \<and> parseQuery libs (search parsed) ''vue'' = None \<longrightarrow>
               isVue libs ident opts = Inr False)
        \<and> isJS libs ident = Inr (JS_RE_test (pathname parsed))
        \<and> getLoader libs ident
            \<in> {Inr (Some ''vue''), Inr (Some ''ts''), Inr (Some ''tsx''), Inr None}
        \<and> (getLoader libs ident = Inr None \<longleftrightarrow>
             extname libs (pathname parsed) \<noteq> ''.vue''
             \<and> \<not> JS_RE_test (extname libs (pathname parsed))))"
proof (intro conjI impI)
  assume "parse_id libs ident = Inl e"
  then show "isVue libs ident opts = Inl e" "isJS libs ident = Inl e"
    "getLoader libs ident = Inl e"
    by (simp_all add: isVue_def isJS_def getLoader_def)
next
  assume p: "parse_id libs ident = Inr parsed"
  show "isVue libs ident opts = Inr True \<or> isVue libs ident opts = Inr False"
    using p by (auto simp: isVue_def)
  show "isJS libs ident = Inr (JS_RE_test (pathname parsed))"
    using p by (simp add: isJS_def)
  show "getLoader libs ident
            \<in> {Inr (Some ''vue''), Inr (Some ''ts''), Inr (Some ''tsx''), Inr None}"
    by (simp add: getLoader_Inr [OF p])
  show "getLoader libs ident = Inr None \<longleftrightarrow>
             extname libs (pathname parsed) \<noteq> ''.vue''
             \<and> \<not> JS_RE_test (extname libs (pathname parsed))"
    by (simp add: getLoader_Inr [OF p])
  show "isVue libs ident opts = Inr False"
    if "search parsed = [] \<and> \<not> suffix ''.vue'' ident"
    using p that by (simp add: isVue_def)
  show "isVue libs ident opts = Inr False"
    if "search parsed \<noteq> [] \<and> \<not> truthy (parseQuery libs (search parsed) ''macro'')
             \<and> parseQuery libs (search parsed) ''vue'' = None"
    using p that by (simp add: isVue_def Let_def)
qed

text \<open>
  A style sheet: not a component, not a script, no loader.
\<close>

theorem classifiers_fail_only_with_libraries_witness:
  "parse_id sample_libs ''/app/assets/main.css''
     = Inr \<lparr>pathname = ''/app/assets/main.css'', search = []\<rparr>
   \<and> \<not> suffix ''.vue'' ''/app/assets/main.css''
   \<and> isVue sample_libs ''/app/assets/main.css'' no_opts = Inr False
   \<and> isJS sample_libs ''/app/assets/main.css'' = Inr False
   \<and> getLoader sample_libs ''/app/assets/main.css'' = Inr None"
proof -
  have n: "\<not> suffix ''.vue'' ''/app/assets/main.css''"
    by (simp add: suffix_to_prefix)
  have j: "\<not> JS_RE_test ''/app/assets/main.css''"
    by (simp add: JS_RE_test_def suffix_to_prefix)
  have e: "extname sample_libs ''/app/assets/main.css'' = ''.css''"
    by code_simp
  have c: "\<not> JS_RE_test ''.css''"
    by (simp add: JS_RE_test_def suffix_to_prefix)
  show ?thesis
    using n j e c sample_parse_css
      classifiers_fail_only_with_libraries [of sample_libs "''/app/assets/main.css''" _ no_opts
        "\<lparr>pathname = ''/app/assets/main.css'', search = []\<rparr>"]
    by simp
qed

end
